theory Spec2Isabelle
  imports Main "HOL-Library.AList"
begin

section \<open>SDMX-REST: resources, query types, parameters and URL construction\<close>

text \<open>
  A shallow embedding of \<^verbatim>\<open>sdmx/rest/common.py\<close>. Python dictionaries are association
  lists in insertion order (\<open>AList.update\<close> overwrites in place or appends, as a
  \<^verbatim>\<open>dict\<close> does; \<open>AList.delete\<close> removes a key). Every \<^verbatim>\<open>raise\<close>, failed
  \<^verbatim>\<open>assert\<close> and failed lookup is a value of the type \<open>error\<close>.
\<close>

subsection \<open>Python values and exceptions\<close>

datatype pyval = VNone | VBool bool | VInt int | VStr string

text \<open>
  The exceptions the module can raise. The \<^verbatim>\<open>ValueError\<close>s are kept
  apart by constructor; \<open>KeyError\<close> carries the missing key.
\<close>

datatype error =
    DuplicateParameters "string list"         \<comment> \<open>ValueError: Duplicate values for query parameters\<close>
  | ConflictingAlias string string            \<comment> \<open>ValueError: Cannot give both ... and ...\<close>
  | NotPositiveInt string pyval               \<comment> \<open>ValueError: ... must be positive integer; got ...\<close>
  | UnexpectedParameters "(string \<times> pyval) list" \<comment> \<open>ValueError: Unexpected/unhandled parameters\<close>
  | InvalidURL string                          \<comment> \<open>ValueError of the URL library: Invalid IPv6 URL\<close>
  | AssertionError
  | KeyError string
  | TypeError
  | AttributeError string

type_synonym pydict = "(string \<times> pyval) list"

subsection \<open>The lookup tables \<^verbatim>\<open>CLASS_NAME\<close> and \<^verbatim>\<open>VALUE\<close>\<close>

definition CLASS_NAME :: "(string \<times> string) list" where
  "CLASS_NAME =
     [(''dataflow'', ''DataflowDefinition''),
      (''datastructure'', ''DataStructureDefinition'')]"

text \<open>\<^verbatim>\<open>VALUE = {v: k for k, v in CLASS_NAME.items()}\<close>: a later item overwrites.\<close>

definition VALUE :: "(string \<times> string) list" where
  "VALUE = foldl (\<lambda>d (k, v). AList.update v k d) [] CLASS_NAME"

subsection \<open>The enumerations \<^verbatim>\<open>QueryType\<close> and \<^verbatim>\<open>Resource\<close>\<close>

datatype QueryType = availability | data | metadata | schema | "structure" | registration

fun QueryType_name :: "QueryType \<Rightarrow> string" where
  "QueryType_name availability = ''availability''"
| "QueryType_name data = ''data''"
| "QueryType_name metadata = ''metadata''"
| "QueryType_name schema = ''schema''"
| "QueryType_name structure = ''structure''"
| "QueryType_name registration = ''registration''"

definition QueryType_members :: "QueryType list" where
  "QueryType_members = [availability, data, metadata, schema, structure, registration]"

text \<open>\<^verbatim>\<open>QueryType[name]\<close>: the member of that name, or \<^verbatim>\<open>KeyError\<close>.\<close>

definition QueryType_getitem :: "string \<Rightarrow> error + QueryType" where
  "QueryType_getitem s =
     (case find (\<lambda>q. QueryType_name q = s) QueryType_members of
        Some q \<Rightarrow> Inr q
      | None \<Rightarrow> Inl (KeyError s))"

datatype Resource =
    actualconstraint | agencyscheme | allowedconstraint | attachementconstraint
  | availableconstraint | categorisation | categoryscheme | codelist | conceptscheme
  | contentconstraint | customtypescheme | r_data | dataconsumerscheme | dataflow
  | dataproviderscheme | datastructure | hierarchicalcodelist | r_metadata | metadataflow
  | metadatastructure | namepersonalisationscheme | organisationscheme
  | organisationunitscheme | process | provisionagreement | reportingtaxonomy
  | rulesetscheme | r_schema | r_structure | structureset | transformationscheme
  | userdefinedoperatorscheme | vtlmappingscheme

text \<open>
  The members \<^verbatim>\<open>data\<close>, \<^verbatim>\<open>metadata\<close>, \<^verbatim>\<open>schema\<close> and \<^verbatim>\<open>structure\<close> of
  \<^verbatim>\<open>Resource\<close> are written \<open>r_data\<close>, \<open>r_metadata\<close>, \<open>r_schema\<close>, \<open>r_structure\<close>: a
  constructor name can belong to one datatype only. Every member's value is the string
  on the right of its line in the class body, and its name the identifier on the left.
\<close>

fun Resource_value :: "Resource \<Rightarrow> string" where
  "Resource_value actualconstraint = ''actualconstraint''"
| "Resource_value agencyscheme = ''agencyscheme''"
| "Resource_value allowedconstraint = ''allowedconstraint''"
| "Resource_value attachementconstraint = ''attachementconstraint''"
| "Resource_value availableconstraint = ''availableconstraint''"
| "Resource_value categorisation = ''categorisation''"
| "Resource_value categoryscheme = ''categoryscheme''"
| "Resource_value codelist = ''codelist''"
| "Resource_value conceptscheme = ''conceptscheme''"
| "Resource_value contentconstraint = ''contentconstraint''"
| "Resource_value customtypescheme = ''customtypescheme''"
| "Resource_value r_data = ''data''"
| "Resource_value dataconsumerscheme = ''dataconsumerscheme''"
| "Resource_value dataflow = ''dataflow''"
| "Resource_value dataproviderscheme = ''dataproviderscheme''"
| "Resource_value datastructure = ''datastructure''"
| "Resource_value hierarchicalcodelist = ''hierarchicalcodelist''"
| "Resource_value r_metadata = ''metadata''"
| "Resource_value metadataflow = ''metadataflow''"
| "Resource_value metadatastructure = ''metadatastructure''"
| "Resource_value namepersonalisationscheme = ''namepersonalisationscheme''"
| "Resource_value organisationscheme = ''organisationscheme''"
| "Resource_value organisationunitscheme = ''organisationunitscheme''"
| "Resource_value process = ''process''"
| "Resource_value provisionagreement = ''provisionagreement''"
| "Resource_value reportingtaxonomy = ''reportingtaxonomy''"
| "Resource_value rulesetscheme = ''rulesetscheme''"
| "Resource_value r_schema = ''schema''"
| "Resource_value r_structure = ''structure''"
| "Resource_value structureset = ''structureset''"
| "Resource_value transformationscheme = ''transformationscheme''"
| "Resource_value userdefinedoperatorscheme = ''userdefinedoperatorscheme''"
| "Resource_value vtlmappingscheme = ''vtlmappingscheme''"

fun Resource_name :: "Resource \<Rightarrow> string" where
  "Resource_name actualconstraint = ''actualconstraint''"
| "Resource_name agencyscheme = ''agencyscheme''"
| "Resource_name allowedconstraint = ''allowedconstraint''"
| "Resource_name attachementconstraint = ''attachementconstraint''"
| "Resource_name availableconstraint = ''availableconstraint''"
| "Resource_name categorisation = ''categorisation''"
| "Resource_name categoryscheme = ''categoryscheme''"
| "Resource_name codelist = ''codelist''"
| "Resource_name conceptscheme = ''conceptscheme''"
| "Resource_name contentconstraint = ''contentconstraint''"
| "Resource_name customtypescheme = ''customtypescheme''"
| "Resource_name r_data = ''data''"
| "Resource_name dataconsumerscheme = ''dataconsumerscheme''"
| "Resource_name dataflow = ''dataflow''"
| "Resource_name dataproviderscheme = ''dataproviderscheme''"
| "Resource_name datastructure = ''datastructure''"
| "Resource_name hierarchicalcodelist = ''hierarchicalcodelist''"
| "Resource_name r_metadata = ''metadata''"
| "Resource_name metadataflow = ''metadataflow''"
| "Resource_name metadatastructure = ''metadatastructure''"
| "Resource_name namepersonalisationscheme = ''namepersonalisationscheme''"
| "Resource_name organisationscheme = ''organisationscheme''"
| "Resource_name organisationunitscheme = ''organisationunitscheme''"
| "Resource_name process = ''process''"
| "Resource_name provisionagreement = ''provisionagreement''"
| "Resource_name reportingtaxonomy = ''reportingtaxonomy''"
| "Resource_name rulesetscheme = ''rulesetscheme''"
| "Resource_name r_schema = ''schema''"
| "Resource_name r_structure = ''structure''"
| "Resource_name structureset = ''structureset''"
| "Resource_name transformationscheme = ''transformationscheme''"
| "Resource_name userdefinedoperatorscheme = ''userdefinedoperatorscheme''"
| "Resource_name vtlmappingscheme = ''vtlmappingscheme''"

definition Resource_members :: "Resource list" where
  "Resource_members =
     [actualconstraint, agencyscheme, allowedconstraint, attachementconstraint,
      availableconstraint, categorisation, categoryscheme, codelist, conceptscheme,
      contentconstraint, customtypescheme, r_data, dataconsumerscheme, dataflow,
      dataproviderscheme, datastructure, hierarchicalcodelist, r_metadata, metadataflow,
      metadatastructure, namepersonalisationscheme, organisationscheme,
      organisationunitscheme, process, provisionagreement, reportingtaxonomy,
      rulesetscheme, r_schema, r_structure, structureset, transformationscheme,
      userdefinedoperatorscheme, vtlmappingscheme]"

text \<open>\<^verbatim>\<open>Resource[name]\<close> (\<^verbatim>\<open>cls[...]\<close> in \<^verbatim>\<open>from_obj\<close>).\<close>

definition Resource_getitem :: "string \<Rightarrow> error + Resource" where
  "Resource_getitem s =
     (case find (\<lambda>r. Resource_name r = s) Resource_members of
        Some r \<Rightarrow> Inr r
      | None \<Rightarrow> Inl (KeyError s))"

text \<open>\<^verbatim>\<open>d.get(k, default)\<close> on a table of strings.\<close>

definition dict_get_str :: "(string \<times> string) list \<Rightarrow> string \<Rightarrow> string \<Rightarrow> string" where
  "dict_get_str d k dflt = (case map_of d k of Some v \<Rightarrow> v | None \<Rightarrow> dflt)"

text \<open>
  \<^verbatim>\<open>Resource.from_obj(obj)\<close>; the object is given by \<^verbatim>\<open>obj.__class__.__name__\<close>, the
  only thing the method reads of it.
\<close>

definition from_obj :: "string \<Rightarrow> error + Resource" where
  "from_obj cls_name = Resource_getitem (dict_get_str VALUE cls_name cls_name)"

definition class_name :: "Resource \<Rightarrow> string" where
  "class_name v = dict_get_str CLASS_NAME (Resource_value v) (Resource_value v)"

text \<open>
  \<^verbatim>\<open>URL.identify_query_type\<close>, as a function of \<^verbatim>\<open>self.resource_type\<close> giving the value
  stored in \<^verbatim>\<open>self.query_type\<close>. Only \<^verbatim>\<open>KeyError\<close> is caught; the handler is itself a
  lookup.
\<close>

definition identify_query_type :: "Resource \<Rightarrow> error + QueryType" where
  "identify_query_type rt =
     (case QueryType_getitem (Resource_name rt) of
        Inr q \<Rightarrow> Inr q
      | Inl (KeyError _) \<Rightarrow> QueryType_getitem ''structure''
      | Inl e \<Rightarrow> Inl e)"

subsection \<open>Operations of Python on values and strings\<close>

text \<open>\<^verbatim>\<open>a == b\<close>: a \<^verbatim>\<open>bool\<close> is the integer 0 or 1.\<close>

fun py_eq :: "pyval \<Rightarrow> pyval \<Rightarrow> bool" where
  "py_eq (VBool a) (VInt i) = ((if a then 1 else 0) = i)"
| "py_eq (VInt i) (VBool a) = (i = (if a then 1 else 0))"
| "py_eq a b = (a = b)"

text \<open>\<^verbatim>\<open>v in vs\<close> for a set \<open>vs\<close>, given by its elements.\<close>

definition py_in :: "pyval \<Rightarrow> pyval list \<Rightarrow> bool" where
  "py_in v vs = list_ex (py_eq v) vs"

text \<open>Truth value of an object, as \<^verbatim>\<open>or\<close> tests it.\<close>

fun py_truthy :: "pyval \<Rightarrow> bool" where
  "py_truthy VNone = False"
| "py_truthy (VBool b) = b"
| "py_truthy (VInt i) = (i \<noteq> 0)"
| "py_truthy (VStr s) = (s \<noteq> [])"

text \<open>\<^verbatim>\<open>v <= 0\<close>: defined on numbers; \<^verbatim>\<open>TypeError\<close> on \<^verbatim>\<open>None\<close> and on a string.\<close>

fun py_le_zero :: "pyval \<Rightarrow> error + bool" where
  "py_le_zero (VInt i) = Inr (i \<le> 0)"
| "py_le_zero (VBool b) = Inr (\<not> b)"
| "py_le_zero VNone = Inl TypeError"
| "py_le_zero (VStr s) = Inl TypeError"

fun str_nat :: "nat \<Rightarrow> string" where
  "str_nat n =
     (if n < 10 then [char_of (48 + n)]
      else str_nat (n div 10) @ [char_of (48 + n mod 10)])"

declare str_nat.simps [simp del]

definition str_int :: "int \<Rightarrow> string" where
  "str_int i = (if i < 0 then CHR ''-'' # str_nat (nat (- i)) else str_nat (nat i))"

text \<open>\<^verbatim>\<open>str(v)\<close>, also what an f-string writes for \<open>v\<close>.\<close>

fun py_str :: "pyval \<Rightarrow> string" where
  "py_str VNone = ''None''"
| "py_str (VBool b) = (if b then ''True'' else ''False'')"
| "py_str (VInt i) = str_int i"
| "py_str (VStr s) = s"

definition is_lower :: "char \<Rightarrow> bool" where
  "is_lower c = (97 \<le> (of_char c :: nat) \<and> (of_char c :: nat) \<le> 122)"

definition is_upper :: "char \<Rightarrow> bool" where
  "is_upper c = (65 \<le> (of_char c :: nat) \<and> (of_char c :: nat) \<le> 90)"

definition is_digit :: "char \<Rightarrow> bool" where
  "is_digit c = (48 \<le> (of_char c :: nat) \<and> (of_char c :: nat) \<le> 57)"

definition upper :: "char \<Rightarrow> char" where
  "upper c = (if is_lower c then char_of ((of_char c :: nat) - 32) else c)"

definition lower :: "char \<Rightarrow> char" where
  "lower c = (if is_upper c then char_of ((of_char c :: nat) + 32) else c)"

text \<open>\<^verbatim>\<open>sep.join(xs)\<close>.\<close>

fun str_join :: "string \<Rightarrow> string list \<Rightarrow> string" where
  "str_join sep [] = []"
| "str_join sep [x] = x"
| "str_join sep (x # y # ys) = x @ sep @ str_join sep (y # ys)"

text \<open>\<^verbatim>\<open>s.split(c)\<close> for a one-character separator: empty pieces are kept.\<close>

fun split_sep :: "char \<Rightarrow> string \<Rightarrow> string list" where
  "split_sep c [] = [[]]"
| "split_sep c (x # xs) =
     (if x = c then [] # split_sep c xs
      else (case split_sep c xs of [] \<Rightarrow> [[x]] | w # ws \<Rightarrow> (x # w) # ws))"

subsection \<open>Dictionaries\<close>

definition keys :: "('k \<times> 'v) list \<Rightarrow> 'k list" where
  "keys d = map fst d"

text \<open>\<^verbatim>\<open>d.update(e)\<close>: the items of \<open>e\<close> in order.\<close>

definition dict_update :: "('k \<times> 'v) list \<Rightarrow> ('k \<times> 'v) list \<Rightarrow> ('k \<times> 'v) list" where
  "dict_update d e = foldl (\<lambda>acc (k, v). AList.update k v acc) d e"

text \<open>\<^verbatim>\<open>d.setdefault(k, v)\<close>, for its effect on \<open>d\<close>.\<close>

definition setdefault :: "('k \<times> 'v) list \<Rightarrow> 'k \<Rightarrow> 'v \<Rightarrow> ('k \<times> 'v) list" where
  "setdefault d k v = (if k \<in> set (keys d) then d else d @ [(k, v)])"

subsection \<open>The source descriptor\<close>

text \<open>
  What the module reads of a \<^verbatim>\<open>Source\<close>: its \<^verbatim>\<open>url\<close>, and its \<^verbatim>\<open>id\<close> through
  \<^verbatim>\<open>getattr(source, "id", None)\<close> (\<open>None\<close> here: the object has no such attribute).
\<close>

record Source =
  url :: string
  source_id :: "pyval option"

definition getattr_id :: "Source \<Rightarrow> pyval" where
  "getattr_id src = (case source_id src of Some v \<Rightarrow> v | None \<Rightarrow> VNone)"

subsection \<open>Parameters\<close>

datatype param_class = PathParameter | QueryParameter | AgencyParam | PositiveIntParam

text \<open>
  The dataclass \<^verbatim>\<open>Parameter\<close> with its fields \<^verbatim>\<open>name\<close>, \<^verbatim>\<open>values\<close>, \<^verbatim>\<open>default\<close>, the
  class of the object, and the attribute \<^verbatim>\<open>camelName\<close> that
  \<^verbatim>\<open>QueryParameter.__post_init__\<close> sets (\<open>None\<close>: the object has no such attribute).
\<close>

record Parameter =
  cls :: param_class
  p_name :: string
  p_values :: "pyval list"
  p_default :: pyval
  camelName :: "string option"

text \<open>
  \<^verbatim>\<open>re.sub(r"_([a-z])", lambda x: x.group(1).upper(), name)\<close>: matches are found from the
  left and do not overlap.
\<close>

fun camel :: "string \<Rightarrow> string" where
  "camel (c # d # cs) =
     (if c = CHR ''_'' \<and> is_lower d then upper d # camel cs else c # camel (d # cs))"
| "camel cs = cs"

declare camel.simps [simp del]

text \<open>The constructors, with the dataclass defaults written at the call.\<close>

definition new_PathParameter :: "string \<Rightarrow> pyval list \<Rightarrow> pyval \<Rightarrow> Parameter" where
  "new_PathParameter n vs d =
     \<lparr>cls = PathParameter, p_name = n, p_values = vs, p_default = d, camelName = None\<rparr>"

definition new_AgencyParam :: "string \<Rightarrow> pyval list \<Rightarrow> pyval \<Rightarrow> Parameter" where
  "new_AgencyParam n vs d =
     \<lparr>cls = AgencyParam, p_name = n, p_values = vs, p_default = d, camelName = None\<rparr>"

definition new_QueryParameter :: "string \<Rightarrow> pyval list \<Rightarrow> pyval \<Rightarrow> Parameter" where
  "new_QueryParameter n vs d =
     \<lparr>cls = QueryParameter, p_name = n, p_values = vs, p_default = d,
      camelName = Some (camel n)\<rparr>"

definition new_PositiveIntParam :: "string \<Rightarrow> pyval list \<Rightarrow> pyval \<Rightarrow> Parameter" where
  "new_PositiveIntParam n vs d =
     \<lparr>cls = PositiveIntParam, p_name = n, p_values = vs, p_default = d,
      camelName = Some (camel n)\<rparr>"

text \<open>
  A \<^verbatim>\<open>handle\<close> method mutates the dictionary it is given and returns a fragment or
  raises: the model returns the outcome and the dictionary as the call leaves it.
\<close>

type_synonym handled = "(error + pydict) \<times> pydict"

definition PathParameter_handle :: "Parameter \<Rightarrow> pydict \<Rightarrow> handled" where
  "PathParameter_handle p parameters =
     (let v = (case map_of parameters (p_name p) of Some v \<Rightarrow> v | None \<Rightarrow> p_default p);
          parameters' = AList.delete (p_name p) parameters
      in if py_in v (p_values p) \<or> length (p_values p) = 0
         then (Inr [(p_name p, v)], parameters')
         else (Inl AssertionError, parameters'))"

text \<open>
  \<open>present\<close> is the set \<^verbatim>\<open>{self.name, self.camelName} & set(parameters)\<close>, listed
  without repetition; \<^verbatim>\<open>present.pop()\<close> is taken of a set of one element.
\<close>

definition QueryParameter_handle :: "Parameter \<Rightarrow> pydict \<Rightarrow> handled" where
  "QueryParameter_handle p parameters =
     (case camelName p of
        None \<Rightarrow> (Inl (AttributeError ''camelName''), parameters)
      | Some cn \<Rightarrow>
          (case filter (\<lambda>k. k \<in> set (keys parameters)) (remdups [p_name p, cn]) of
             [] \<Rightarrow> (Inr [], parameters)
           | [k] \<Rightarrow>
               (case map_of parameters k of
                  None \<Rightarrow> (Inl (KeyError k), parameters)
                | Some v \<Rightarrow>
                    (let parameters' = AList.delete k parameters
                     in if py_in v (p_values p) \<or> length (p_values p) = 0
                        then (Inr [(cn, v)], parameters')
                        else (Inl AssertionError, parameters')))
           | _ \<Rightarrow> (Inl (ConflictingAlias (p_name p) cn), parameters)))"

definition AgencyParam_handle :: "Parameter \<Rightarrow> pydict \<Rightarrow> Source \<Rightarrow> handled" where
  "AgencyParam_handle p parameters src =
     PathParameter_handle p (setdefault parameters (p_name p) (getattr_id src))"

text \<open>
  \<^verbatim>\<open>list(result)[0]\<close> raises \<^verbatim>\<open>IndexError\<close> on the empty fragment, which is returned as
  it is; otherwise \<open>k\<close> is the fragment's first key, and \<^verbatim>\<open>str(k)\<close> is \<open>k\<close> itself,
  a string.
\<close>

definition PositiveIntParam_handle :: "Parameter \<Rightarrow> pydict \<Rightarrow> handled" where
  "PositiveIntParam_handle p parameters =
     (case QueryParameter_handle p parameters of
        (Inl e, parameters') \<Rightarrow> (Inl e, parameters')
      | (Inr result, parameters') \<Rightarrow>
          (case result of
             [] \<Rightarrow> (Inr result, parameters')
           | (k, v) # _ \<Rightarrow>
               (case py_le_zero v of
                  Inl e \<Rightarrow> (Inl e, parameters')
                | Inr True \<Rightarrow> (Inl (NotPositiveInt k v), parameters')
                | Inr False \<Rightarrow> (Inr (AList.update k (VStr k) result), parameters'))))"

text \<open>Method dispatch on the class of the parameter: \<^verbatim>\<open>p.handle(parameters, source)\<close>.\<close>

definition handle :: "Parameter \<Rightarrow> pydict \<Rightarrow> Source \<Rightarrow> handled" where
  "handle p parameters src =
     (case cls p of
        PathParameter \<Rightarrow> PathParameter_handle p parameters
      | QueryParameter \<Rightarrow> QueryParameter_handle p parameters
      | AgencyParam \<Rightarrow> AgencyParam_handle p parameters src
      | PositiveIntParam \<Rightarrow> PositiveIntParam_handle p parameters)"

text \<open>The module's table \<^verbatim>\<open>PARAM\<close>.\<close>

definition PARAM :: "(string \<times> Parameter) list" where
  "PARAM =
     [(''agency_id'', new_AgencyParam ''agency_id'' [] VNone),
      (''resource_id'', new_PathParameter ''resource_id'' [] (VStr ''all'')),
      (''start_period'', new_QueryParameter ''start_period'' [] VNone),
      (''end_period'', new_QueryParameter ''end_period'' [] VNone),
      (''updated_after'', new_QueryParameter ''updated_after'' [] VNone),
      (''first_n_observations'', new_PositiveIntParam ''first_n_observations'' [] VNone),
      (''last_n_observations'', new_PositiveIntParam ''last_n_observations'' [] VNone),
      (''dimension_at_observation'', new_QueryParameter ''dimension_at_observation'' [] VNone),
      (''include_history'', new_QueryParameter ''include_history'' [VBool True, VBool False] VNone),
      (''explicit_measure'', new_QueryParameter ''explicit_measure'' [VBool True, VBool False] VNone),
      (''mode'', new_QueryParameter ''mode'' [VStr ''available'', VStr ''exact''] VNone)]"

subsection \<open>The standard library's \<^verbatim>\<open>urlsplit\<close> and \<^verbatim>\<open>urlunsplit\<close>\<close>

text \<open>
  \<^verbatim>\<open>urllib.parse.urlsplit\<close> on a string, for the components \<^verbatim>\<open>join\<close> keeps (scheme,
  netloc, path). The scheme is what precedes the first colon when that is a letter
  followed by letters, digits, \<open>+\<close>, \<open>-\<close> or \<open>.\<close>; the netloc follows \<open>//\<close> up to the first
  \<open>/\<close>, \<open>?\<close> or \<open>#\<close>; the path ends at the first \<open>#\<close> or \<open>?\<close>. A bracket without its
  partner in the netloc is the library's \<^verbatim>\<open>ValueError\<close>. The library's stripping of
  leading control characters and its validation of a bracketed host are left out: the
  model is of URLs without them.
\<close>

fun partition_at :: "char \<Rightarrow> string \<Rightarrow> (string \<times> string) option" where
  "partition_at c [] = None"
| "partition_at c (x # xs) =
     (if x = c then Some ([], xs)
      else map_option (\<lambda>(a, b). (x # a, b)) (partition_at c xs))"

definition scheme_char :: "char \<Rightarrow> bool" where
  "scheme_char c = (is_lower c \<or> is_upper c \<or> is_digit c \<or> c \<in> set ''+-.'')"

definition split_scheme :: "string \<Rightarrow> string \<times> string" where
  "split_scheme u =
     (case partition_at CHR '':'' u of
        None \<Rightarrow> ([], u)
      | Some (pre, rest) \<Rightarrow>
          (case pre of
             [] \<Rightarrow> ([], u)
           | c # _ \<Rightarrow>
               if (is_lower c \<or> is_upper c) \<and> list_all scheme_char pre
               then (map lower pre, rest) else ([], u)))"

definition urlsplit3 :: "string \<Rightarrow> error + (string \<times> string \<times> string)" where
  "urlsplit3 u =
     (let (scheme, u1) = split_scheme u;
          delim = (\<lambda>c. c \<in> set ''/?#'');
          (netloc, u2) = (if take 2 u1 = ''//''
                          then (takeWhile (\<lambda>c. \<not> delim c) (drop 2 u1),
                                dropWhile (\<lambda>c. \<not> delim c) (drop 2 u1))
                          else ([], u1));
          u3 = takeWhile (\<lambda>c. c \<noteq> CHR ''#'') u2;
          u4 = takeWhile (\<lambda>c. c \<noteq> CHR ''?'') u3
      in if (CHR ''['' \<in> set netloc) \<noteq> (CHR '']'' \<in> set netloc)
         then Inl (InvalidURL netloc)
         else Inr (scheme, netloc, u4))"

definition uses_netloc :: "string list" where
  "uses_netloc =
     [[], ''ftp'', ''http'', ''gopher'', ''nntp'', ''telnet'', ''imap'', ''wais'', ''file'',
      ''mms'', ''https'', ''shttp'', ''snews'', ''prospero'', ''rtsp'', ''rtsps'', ''rtspu'',
      ''rsync'', ''svn'', ''svn+ssh'', ''sftp'', ''nfs'', ''git'', ''git+ssh'', ''ws'', ''wss'',
      ''itms-services'']"

text \<open>\<^verbatim>\<open>urlunsplit((scheme, netloc, url, query, None))\<close>.\<close>

definition urlunsplit :: "string \<Rightarrow> string \<Rightarrow> string \<Rightarrow> string \<Rightarrow> string" where
  "urlunsplit scheme netloc u q =
     (let u1 = (if netloc \<noteq> [] \<or> (scheme \<noteq> [] \<and> scheme \<in> set uses_netloc \<and> take 2 u \<noteq> ''//'')
                then ''//'' @ netloc @ (if u \<noteq> [] \<and> take 1 u \<noteq> ''/'' then CHR ''/'' # u else u)
                else u);
          u2 = (if scheme \<noteq> [] then scheme @ '':'' @ u1 else u1)
      in if q \<noteq> [] then u2 @ ''?'' @ q else u2)"

subsection \<open>The URL builder\<close>

text \<open>
  The attributes of a \<^verbatim>\<open>URL\<close> object; \<open>path\<close>, \<open>query\<close> and \<open>params\<close> are the source's
  \<^verbatim>\<open>_path\<close>, \<^verbatim>\<open>_query\<close> and \<^verbatim>\<open>_params\<close>.
\<close>

record URL =
  source :: Source
  resource_type :: Resource
  query_type :: QueryType
  path :: pydict
  query :: pydict
  params :: pydict

text \<open>
  \<^verbatim>\<open>URL\<close> is abstract. A concrete class supplies the table \<^verbatim>\<open>_all_parameters\<close>, whose
  keys are a name or a pair of a name and a query type, the method
  \<^verbatim>\<open>handle_structure\<close>, and may define \<^verbatim>\<open>handle_availability\<close> and
  \<^verbatim>\<open>handle_registration\<close>, which this class does not have. A handler returns the object
  as it leaves it, or raises.
\<close>

datatype pkey = Name string | NameQT string QueryType

record URL_class =
  all_parameters :: "(pkey \<times> Parameter) list"
  handle_structure :: "URL \<Rightarrow> error + URL"
  handle_availability :: "(URL \<Rightarrow> error + URL) option"
  handle_registration :: "(URL \<Rightarrow> error + URL) option"

text \<open>The loop of \<^verbatim>\<open>handle_path_params\<close>, over the names of the expression.\<close>

fun handle_path_names :: "(pkey \<times> Parameter) list \<Rightarrow> string list \<Rightarrow> URL \<Rightarrow> error + URL" where
  "handle_path_names reg [] u = Inr u"
| "handle_path_names reg (n # ns) u =
     (case map_of reg (Name n) of
        None \<Rightarrow> Inl (KeyError n)
      | Some p \<Rightarrow>
          (case handle p (params u) (source u) of
             (Inl e, _) \<Rightarrow> Inl e
           | (Inr frag, parameters') \<Rightarrow>
               handle_path_names reg ns
                 (u\<lparr>params := parameters', path := dict_update (path u) frag\<rparr>)))"

definition handle_path_params :: "URL_class \<Rightarrow> string \<Rightarrow> URL \<Rightarrow> error + URL" where
  "handle_path_params c expr u =
     handle_path_names (all_parameters c) (split_sep CHR ''/'' expr) u"

text \<open>\<^verbatim>\<open>handle_data\<close>, which is \<^verbatim>\<open>handle_metadata\<close> too.\<close>

definition handle_data :: "URL \<Rightarrow> error + URL" where
  "handle_data u =
     (let path1 = dict_update (path u) [(Resource_name (resource_type u), VNone)]
      in case map_of (params u) ''resource_id'' of
           None \<Rightarrow> Inl (KeyError ''resource_id'')
         | Some rid \<Rightarrow>
             (let path2 = AList.update ''flow_ref'' rid path1;
                  params2 = AList.delete ''resource_id'' (params u)
              in case map_of params2 ''key'' of
                   None \<Rightarrow> Inr (u\<lparr>path := path2, params := params2\<rparr>)
                 | Some k \<Rightarrow>
                     Inr (u\<lparr>path := AList.update ''key'' k path2,
                            params := AList.delete ''key'' params2\<rparr>)))"

definition handle_schema :: "URL_class \<Rightarrow> URL \<Rightarrow> error + URL" where
  "handle_schema c u =
     handle_path_params c ''context/agency_id/resource_id/version''
       (u\<lparr>path := dict_update (path u) [(Resource_name (resource_type u), VNone)]\<rparr>)"

text \<open>\<^verbatim>\<open>getattr(self, f"handle_{self.query_type.name}")()\<close>.\<close>

definition dispatch :: "URL_class \<Rightarrow> URL \<Rightarrow> error + URL" where
  "dispatch c u =
     (case query_type u of
        data \<Rightarrow> handle_data u
      | metadata \<Rightarrow> handle_data u
      | schema \<Rightarrow> handle_schema c u
      | structure \<Rightarrow> handle_structure c u
      | availability \<Rightarrow>
          (case handle_availability c of
             Some h \<Rightarrow> h u | None \<Rightarrow> Inl (AttributeError ''handle_availability''))
      | registration \<Rightarrow>
          (case handle_registration c of
             Some h \<Rightarrow> h u | None \<Rightarrow> Inl (AttributeError ''handle_registration'')))"

text \<open>
  \<^verbatim>\<open>URL.__init__(source, resource_type, **kwargs)\<close>. The keyword \<^verbatim>\<open>params\<close>, a
  dictionary when it is given, is the argument \<open>params_kw\<close>; \<open>kwargs\<close> are the other
  keywords. The first four statements, which
  merge the two, are \<open>init_params\<close>.
\<close>

definition init_params :: "pydict \<Rightarrow> pydict option \<Rightarrow> error + pydict" where
  "init_params kwargs params_kw =
     (let params0 = AList.delete ''params'' kwargs;
          params_dict = (case params_kw of Some d \<Rightarrow> d | None \<Rightarrow> []);
          overlap = filter (\<lambda>k. k \<in> set (keys params_dict)) (remdups (keys params0))
      in if overlap \<noteq> [] then Inl (DuplicateParameters overlap)
         else Inr (dict_update params0 params_dict))"

definition URL_init ::
  "URL_class \<Rightarrow> Source \<Rightarrow> Resource \<Rightarrow> pydict \<Rightarrow> pydict option \<Rightarrow> error + URL" where
  "URL_init c src rt kwargs params_kw =
     (case init_params kwargs params_kw of
        Inl e \<Rightarrow> Inl e
      | Inr ps \<Rightarrow>
          (case identify_query_type rt of
             Inl e \<Rightarrow> Inl e
           | Inr qt \<Rightarrow>
               (case dispatch c
                       \<lparr>source = src, resource_type = rt, query_type = qt, path = [],
                        query = [], params = ps\<rparr> of
                  Inl e \<Rightarrow> Inl e
                | Inr u \<Rightarrow>
                    if length (params u) \<noteq> 0 then Inl (UnexpectedParameters (params u))
                    else Inr u)))"

text \<open>
  \<^verbatim>\<open>join\<close>. A path segment is \<^verbatim>\<open>value or name\<close>; \<^verbatim>\<open>"/".join\<close> raises \<^verbatim>\<open>TypeError\<close> on
  a segment that is not a string.
\<close>

definition path_segment :: "string \<times> pyval \<Rightarrow> error + string" where
  "path_segment kv =
     (case kv of (n, v) \<Rightarrow>
        if py_truthy v then (case v of VStr s \<Rightarrow> Inr s | _ \<Rightarrow> Inl TypeError) else Inr n)"

fun all_segments :: "pydict \<Rightarrow> error + string list" where
  "all_segments [] = Inr []"
| "all_segments (kv # kvs) =
     (case path_segment kv of
        Inl e \<Rightarrow> Inl e
      | Inr s \<Rightarrow> (case all_segments kvs of Inl e \<Rightarrow> Inl e | Inr ss \<Rightarrow> Inr (s # ss)))"

definition join :: "URL \<Rightarrow> error + string" where
  "join u =
     (case urlsplit3 (url (source u)) of
        Inl e \<Rightarrow> Inl e
      | Inr (scheme, netloc, base_path) \<Rightarrow>
          (case all_segments (path u) of
             Inl e \<Rightarrow> Inl e
           | Inr segs \<Rightarrow>
               Inr (urlunsplit scheme netloc
                      (str_join ''/'' (base_path # segs))
                      (str_join ''&'' (map (\<lambda>(k, v). k @ ''='' @ py_str v) (query u))))))"

text \<open>
  The body of \<^verbatim>\<open>handle_structure\<close> in the abstract class, \<^verbatim>\<open>pass\<close>, and a class that
  adds nothing else to it: the module's table under its names, no further handlers.
\<close>

definition URL_handle_structure :: "URL \<Rightarrow> error + URL" where
  "URL_handle_structure u = Inr u"

definition URL_base :: URL_class where
  "URL_base =
     \<lparr>all_parameters = map (\<lambda>(n, p). (Name n, p)) PARAM,
      handle_structure = URL_handle_structure,
      handle_availability = None,
      handle_registration = None\<rparr>"

section \<open>Properties\<close>

subsection \<open>Enumeration lookups\<close>

lemma QueryType_getitem_name: "QueryType_getitem (QueryType_name q) = Inr q"
  by (cases q) (simp_all add: QueryType_getitem_def QueryType_members_def)

lemma QueryType_getitem_none:
  assumes "\<forall>q. QueryType_name q \<noteq> s"
  shows "QueryType_getitem s = Inl (KeyError s)"
proof -
  from assms have "find (\<lambda>q. QueryType_name q = s) QueryType_members = None"
    by (simp add: find_None_iff)
  then show ?thesis by (simp add: QueryType_getitem_def)
qed

lemma Resource_getitem_name: "Resource_getitem (Resource_name r) = Inr r"
  by (cases r) (simp_all add: Resource_getitem_def Resource_members_def)

lemma Resource_getitem_none:
  assumes "\<forall>r. Resource_name r \<noteq> s"
  shows "Resource_getitem s = Inl (KeyError s)"
proof -
  from assms have "find (\<lambda>r. Resource_name r = s) Resource_members = None"
    by (simp add: find_None_iff)
  then show ?thesis by (simp add: Resource_getitem_def)
qed

lemma VALUE_eq:
  "VALUE = [(''DataflowDefinition'', ''dataflow''), (''DataStructureDefinition'', ''datastructure'')]"
  by (simp add: VALUE_def CLASS_NAME_def)

subsection \<open>Query-type derivation\<close>

text \<open>
  C1. For every member \<open>r\<close> of \<open>Resource\<close>, \<open>identify_query_type\<close> returns a query type
  and raises nothing: the member of \<open>QueryType\<close> whose name is the name of \<open>r\<close> when
  there is one, and \<open>structure\<close> when there is none.
\<close>

theorem identify_query_type_total:
  "(\<exists>q. identify_query_type r = Inr q) \<and>
   (\<forall>q. QueryType_name q = Resource_name r \<longrightarrow> identify_query_type r = Inr q) \<and>
   ((\<forall>q. QueryType_name q \<noteq> Resource_name r) \<longrightarrow> identify_query_type r = Inr structure)"
proof -
  have same: "identify_query_type r = Inr q" if "QueryType_name q = Resource_name r" for q
  proof -
    from that have "QueryType_getitem (Resource_name r) = Inr q"
      using QueryType_getitem_name [of q] by simp
    then show ?thesis by (simp add: identify_query_type_def)
  qed
  have other: "identify_query_type r = Inr structure"
    if "\<forall>q. QueryType_name q \<noteq> Resource_name r"
  proof -
    from that have "QueryType_getitem (Resource_name r) = Inl (KeyError (Resource_name r))"
      by (rule QueryType_getitem_none)
    moreover have "QueryType_getitem ''structure'' = Inr structure"
      using QueryType_getitem_name [of "structure"] by simp
    ultimately show ?thesis by (simp add: identify_query_type_def)
  qed
  from same other show ?thesis by blast
qed

theorem identify_query_type_total_witness:
  "identify_query_type r_data = Inr data \<and> identify_query_type dataflow = Inr structure"
proof -
  have a: "QueryType_name data = Resource_name r_data" by simp
  have b: "\<forall>q. QueryType_name q \<noteq> Resource_name dataflow"
  proof
    fix q show "QueryType_name q \<noteq> Resource_name dataflow" by (cases q) simp_all
  qed
  from a b identify_query_type_total [of r_data] identify_query_type_total [of dataflow]
  show ?thesis by blast
qed

subsection \<open>Resources and class names\<close>

text \<open>
  C7. \<open>class_name\<close> is defined on every member of \<open>Resource\<close> and its result is never
  the empty string. The members \<open>dataflow\<close> and \<open>datastructure\<close> give
  \<open>DataflowDefinition\<close> and \<open>DataStructureDefinition\<close>, the entries of \<open>CLASS_NAME\<close>;
  every other member gives its own value, a string of lower-case letters.
\<close>

theorem class_name_total:
  "class_name r \<noteq> [] \<and>
   class_name dataflow = ''DataflowDefinition'' \<and>
   class_name datastructure = ''DataStructureDefinition'' \<and>
   map_of CLASS_NAME (Resource_value dataflow) = Some (class_name dataflow) \<and>
   map_of CLASS_NAME (Resource_value datastructure) = Some (class_name datastructure) \<and>
   (r \<noteq> dataflow \<and> r \<noteq> datastructure \<longrightarrow>
      class_name r = Resource_value r \<and> list_all is_lower (class_name r))"
  by (cases r) (simp_all add: class_name_def dict_get_str_def CLASS_NAME_def is_lower_def)

theorem class_name_total_witness:
  "class_name codelist = Resource_value codelist \<and> list_all is_lower (class_name codelist)"
proof -
  have "codelist \<noteq> dataflow \<and> codelist \<noteq> datastructure" by simp
  with class_name_total [of codelist] show ?thesis by blast
qed

text \<open>
  C8. \<open>from_obj\<close> inverts \<open>class_name\<close>: on the class name of a member it returns that
  member; \<open>VALUE\<close> maps a class name to a value exactly when \<open>CLASS_NAME\<close> maps the value
  to the class name. \<open>from_obj\<close> raises \<open>KeyError\<close> exactly when the type name is neither
  a key of \<open>VALUE\<close> nor the name of a member, and returns a member otherwise.
\<close>

theorem from_obj_inverts_class_name:
  "from_obj (class_name r) = Inr r \<and>
   (map_of VALUE c = Some v \<longleftrightarrow> map_of CLASS_NAME v = Some c) \<and>
   ((\<exists>e. from_obj n = Inl e) \<longleftrightarrow> n \<notin> set (keys VALUE) \<and> (\<forall>m. Resource_name m \<noteq> n)) \<and>
   (n \<notin> set (keys VALUE) \<and> (\<forall>m. Resource_name m \<noteq> n) \<longrightarrow> from_obj n = Inl (KeyError n))"
proof -
  have inv: "from_obj (class_name r) = Inr r"
  proof (cases "r = dataflow \<or> r = datastructure")
    case True
    then show ?thesis
      using Resource_getitem_name [of dataflow] Resource_getitem_name [of datastructure]
      by (auto simp: from_obj_def class_name_def dict_get_str_def CLASS_NAME_def VALUE_eq)
  next
    case False
    then have "class_name r = Resource_name r"
      by (cases r) (simp_all add: class_name_def dict_get_str_def CLASS_NAME_def)
    moreover from False have "map_of VALUE (Resource_name r) = None"
      by (cases r) (simp_all add: VALUE_eq)
    ultimately show ?thesis
      by (simp add: from_obj_def dict_get_str_def Resource_getitem_name)
  qed
  have tab: "map_of VALUE c = Some v \<longleftrightarrow> map_of CLASS_NAME v = Some c"
    by (auto simp: VALUE_eq CLASS_NAME_def split: if_splits)
  have key: "\<exists>m. from_obj n = Inr m" if "n \<in> set (keys VALUE)"
    using that Resource_getitem_name [of dataflow] Resource_getitem_name [of datastructure]
    by (auto simp: from_obj_def dict_get_str_def VALUE_eq keys_def)
  have nokey: "from_obj n = Resource_getitem n" if "n \<notin> set (keys VALUE)"
  proof -
    from that have "map_of VALUE n = None"
      by (simp add: map_of_eq_None_iff keys_def)
    then show ?thesis by (simp add: from_obj_def dict_get_str_def)
  qed
  have member: "\<exists>m'. from_obj n = Inr m'" if "n \<notin> set (keys VALUE)" "Resource_name m = n" for m
    using that nokey Resource_getitem_name [of m] by auto
  have none: "from_obj n = Inl (KeyError n)"
    if "n \<notin> set (keys VALUE)" "\<forall>m. Resource_name m \<noteq> n"
    using that nokey Resource_getitem_none [of n] by simp
  have fails: "(\<exists>e. from_obj n = Inl e) \<longleftrightarrow> n \<notin> set (keys VALUE) \<and> (\<forall>m. Resource_name m \<noteq> n)"
  proof
    assume "\<exists>e. from_obj n = Inl e"
    then show "n \<notin> set (keys VALUE) \<and> (\<forall>m. Resource_name m \<noteq> n)"
      using key member by (metis Inl_Inr_False)
  next
    assume "n \<notin> set (keys VALUE) \<and> (\<forall>m. Resource_name m \<noteq> n)"
    then show "\<exists>e. from_obj n = Inl e" using none by blast
  qed
  from inv tab fails none show ?thesis by blast
qed

theorem from_obj_inverts_class_name_witness:
  "from_obj (class_name dataflow) = Inr dataflow \<and> from_obj ''Foo'' = Inl (KeyError ''Foo'')"
proof -
  have a: "''Foo'' \<notin> set (keys VALUE)" by (simp add: VALUE_eq keys_def)
  have b: "\<forall>m. Resource_name m \<noteq> ''Foo''"
  proof
    fix m show "Resource_name m \<noteq> ''Foo''" by (cases m) simp_all
  qed
  from a b from_obj_inverts_class_name [of dataflow _ _ "''Foo''"] show ?thesis by blast
qed

subsection \<open>Dictionaries and strings\<close>

lemma map_of_delete_other: "k' \<noteq> k \<Longrightarrow> map_of (AList.delete k ps) k' = map_of ps k'"
  by (simp add: delete_conv')

lemma set_delete_eq: "set (AList.delete k ps) = {kv \<in> set ps. fst kv \<noteq> k}"
  by (auto simp: AList.delete_eq)

lemma delete_setdefault: "AList.delete k (setdefault ps k v) = AList.delete k ps"
  by (simp add: setdefault_def AList.delete_eq)

lemma camel_start_period: "camel ''start_period'' = ''startPeriod''"
  by code_simp

lemma camel_first_n_observations: "camel ''first_n_observations'' = ''firstNObservations''"
  by code_simp

lemma camel_mode: "camel ''mode'' = ''mode''"
  by (simp add: camel.simps)

lemma camel_id:
  "list_all (\<lambda>(a, b). \<not> (a = CHR ''_'' \<and> is_lower b)) (zip n (tl n)) \<Longrightarrow> camel n = n"
  by (induction n rule: camel.induct) (auto simp: camel.simps)

subsection \<open>What a \<open>handle\<close> call leaves in the dictionary\<close>

lemma snd_PathParameter_handle: "snd (PathParameter_handle p ps) = AList.delete (p_name p) ps"
  by (simp add: PathParameter_handle_def Let_def)

lemma snd_AgencyParam_handle: "snd (AgencyParam_handle p ps src) = AList.delete (p_name p) ps"
  by (simp add: AgencyParam_handle_def snd_PathParameter_handle delete_setdefault)

lemma snd_QueryParameter_handle:
  "snd (QueryParameter_handle p ps) = ps \<or>
   (\<exists>k. (k = p_name p \<or> camelName p = Some k) \<and>
        snd (QueryParameter_handle p ps) = AList.delete k ps)"
  by (auto simp: QueryParameter_handle_def Let_def split: option.splits list.splits if_splits)

lemma snd_PositiveIntParam_handle:
  "snd (PositiveIntParam_handle p ps) = snd (QueryParameter_handle p ps)"
  by (auto simp: PositiveIntParam_handle_def
           split: prod.splits sum.splits list.splits bool.splits)

lemma snd_handle:
  "snd (handle p ps src) = ps \<or>
   (\<exists>k. (k = p_name p \<or> camelName p = Some k) \<and> snd (handle p ps src) = AList.delete k ps)"
  using snd_QueryParameter_handle [of p ps]
  by (cases "cls p")
     (auto simp: handle_def snd_PathParameter_handle snd_AgencyParam_handle
                 snd_PositiveIntParam_handle)

subsection \<open>Query parameters\<close>

text \<open>The branches of \<open>QueryParameter.handle\<close>, by which of the two keys are given.\<close>

lemma QueryParameter_handle_cases:
  assumes "camelName p = Some cn"
  shows "QueryParameter_handle p ps =
    (if p_name p \<noteq> cn \<and> p_name p \<in> set (keys ps) \<and> cn \<in> set (keys ps)
     then (Inl (ConflictingAlias (p_name p) cn), ps)
     else if p_name p \<in> set (keys ps) then
       (case map_of ps (p_name p) of
          None \<Rightarrow> (Inl (KeyError (p_name p)), ps)
        | Some v \<Rightarrow>
            if py_in v (p_values p) \<or> p_values p = []
            then (Inr [(cn, v)], AList.delete (p_name p) ps)
            else (Inl AssertionError, AList.delete (p_name p) ps))
     else if cn \<in> set (keys ps) then
       (case map_of ps cn of
          None \<Rightarrow> (Inl (KeyError cn), ps)
        | Some v \<Rightarrow>
            if py_in v (p_values p) \<or> p_values p = []
            then (Inr [(cn, v)], AList.delete cn ps)
            else (Inl AssertionError, AList.delete cn ps))
     else (Inr [], ps))"
  using assms by (auto simp: QueryParameter_handle_def Let_def split: option.splits)

lemma handle_new_QueryParameter:
  "handle (new_QueryParameter n vs d) ps src = QueryParameter_handle (new_QueryParameter n vs d) ps"
  by (simp add: handle_def new_QueryParameter_def)

lemma handle_new_PositiveIntParam:
  "handle (new_PositiveIntParam n vs d) ps src =
     PositiveIntParam_handle (new_PositiveIntParam n vs d) ps"
  by (simp add: handle_def new_PositiveIntParam_def)

text \<open>
  C3, as amended. \<open>camelName\<close> is set by the constructor to \<open>camel name\<close>, which drops
  each underscore that a lower-case letter follows and writes the letter in upper case.
  When the name and the alias are two different keys and both are given, \<open>handle\<close>
  raises the conflicting-alias error and leaves the dictionary as it was; when neither
  is given it returns the empty fragment; when exactly one key \<open>k\<close> of the set of the
  two is given, with an allowed value \<open>v\<close>, it returns the fragment of the one entry
  \<open>camelName \<mapsto> v\<close> and removes \<open>k\<close>.
\<close>

theorem QueryParameter_handle_aliases:
  "camelName (new_QueryParameter n vs d) = Some (camel n) \<and>
   camel (CHR ''_'' # c # cs) =
     (if is_lower c then upper c # camel cs else CHR ''_'' # camel (c # cs)) \<and>
   (x \<noteq> CHR ''_'' \<longrightarrow> camel (x # cs) = x # camel cs) \<and>
   (n \<noteq> camel n \<and> n \<in> set (keys ps) \<and> camel n \<in> set (keys ps) \<longrightarrow>
      handle (new_QueryParameter n vs d) ps src = (Inl (ConflictingAlias n (camel n)), ps)) \<and>
   (n \<notin> set (keys ps) \<and> camel n \<notin> set (keys ps) \<longrightarrow>
      handle (new_QueryParameter n vs d) ps src = (Inr [], ps)) \<and>
   ({n, camel n} \<inter> set (keys ps) = {k} \<and> map_of ps k = Some v \<and> (py_in v vs \<or> vs = []) \<longrightarrow>
      handle (new_QueryParameter n vs d) ps src = (Inr [(camel n, v)], AList.delete k ps))"
proof -
  let ?p = "new_QueryParameter n vs d"
  have cn: "camelName ?p = Some (camel n)" and nm: "p_name ?p = n" and vl: "p_values ?p = vs"
    by (simp_all add: new_QueryParameter_def)
  note h = QueryParameter_handle_cases [OF cn, of ps, unfolded nm vl]
  have c1: "camel (CHR ''_'' # c # cs) =
      (if is_lower c then upper c # camel cs else CHR ''_'' # camel (c # cs))"
    by (simp add: camel.simps)
  have c2: "x \<noteq> CHR ''_'' \<longrightarrow> camel (x # cs) = x # camel cs"
    by (cases cs) (simp_all add: camel.simps)
  have both: "n \<noteq> camel n \<and> n \<in> set (keys ps) \<and> camel n \<in> set (keys ps) \<longrightarrow>
      handle ?p ps src = (Inl (ConflictingAlias n (camel n)), ps)"
    by (simp add: handle_new_QueryParameter h)
  have neither: "n \<notin> set (keys ps) \<and> camel n \<notin> set (keys ps) \<longrightarrow>
      handle ?p ps src = (Inr [], ps)"
    by (simp add: handle_new_QueryParameter h)
  have one: "handle ?p ps src = (Inr [(camel n, v)], AList.delete k ps)"
    if a: "{n, camel n} \<inter> set (keys ps) = {k}" and b: "map_of ps k = Some v"
      and c: "py_in v vs \<or> vs = []"
  proof -
    from a have k: "k \<in> set (keys ps)" "k = n \<or> k = camel n" by auto
    show ?thesis
    proof (cases "n \<in> set (keys ps)")
      case True
      with a have kn: "k = n" by auto
      from a True have nc: "\<not> (n \<noteq> camel n \<and> n \<in> set (keys ps) \<and> camel n \<in> set (keys ps))"
        by auto
      from b kn have "map_of ps n = Some v" by simp
      with True nc c kn show ?thesis
        by (simp add: handle_new_QueryParameter h)
    next
      case False
      with k have kc: "k = camel n" by auto
      from b kc have "map_of ps (camel n) = Some v" by simp
      with False k kc c show ?thesis
        by (simp add: handle_new_QueryParameter h)
    qed
  qed
  from cn c1 c2 both neither one show ?thesis by blast
qed

theorem QueryParameter_handle_aliases_witness:
  "handle (new_QueryParameter ''start_period'' [] VNone)
     [(''start_period'', VStr ''2000''), (''startPeriod'', VStr ''2001'')]
     \<lparr>url = ''https://example.org/sdmx'', source_id = None\<rparr>
   = (Inl (ConflictingAlias ''start_period'' ''startPeriod''),
      [(''start_period'', VStr ''2000''), (''startPeriod'', VStr ''2001'')]) \<and>
   handle (new_QueryParameter ''start_period'' [] VNone) [(''start_period'', VStr ''2000'')]
     \<lparr>url = ''https://example.org/sdmx'', source_id = None\<rparr>
   = (Inr [(''startPeriod'', VStr ''2000'')], []) \<and>
   handle (new_QueryParameter ''start_period'' [] VNone) [(''startPeriod'', VStr ''2001'')]
     \<lparr>url = ''https://example.org/sdmx'', source_id = None\<rparr>
   = (Inr [(''startPeriod'', VStr ''2001'')], []) \<and>
   handle (new_QueryParameter ''start_period'' [] VNone) [(''mode'', VStr ''exact'')]
     \<lparr>url = ''https://example.org/sdmx'', source_id = None\<rparr>
   = (Inr [], [(''mode'', VStr ''exact'')])"
proof -
  note t = QueryParameter_handle_aliases [of "''start_period''" "[]" VNone,
      unfolded camel_start_period]
  show ?thesis
    using
      t [of _ _ _ "[(''start_period'', VStr ''2000''), (''startPeriod'', VStr ''2001'')]"
          "\<lparr>url = ''https://example.org/sdmx'', source_id = None\<rparr>"]
      t [of _ _ _ "[(''start_period'', VStr ''2000'')]"
          "\<lparr>url = ''https://example.org/sdmx'', source_id = None\<rparr>"
          "''start_period''" "VStr ''2000''"]
      t [of _ _ _ "[(''startPeriod'', VStr ''2001'')]"
          "\<lparr>url = ''https://example.org/sdmx'', source_id = None\<rparr>"
          "''startPeriod''" "VStr ''2001''"]
      t [of _ _ _ "[(''mode'', VStr ''exact'')]"
          "\<lparr>url = ''https://example.org/sdmx'', source_id = None\<rparr>"]
    by (simp add: keys_def)
qed

text \<open>
  The claim as written fails where the name is its own alias: for the registered
  parameter \<open>mode\<close> the name and the alias are both given by the one key \<open>mode\<close>,
  and \<open>handle\<close> returns the fragment.
\<close>

theorem QueryParameter_handle_aliases_counterexample:
  "camelName (new_QueryParameter ''mode'' [VStr ''available'', VStr ''exact''] VNone) = Some ''mode'' \<and>
   ''mode'' \<in> set (keys [(''mode'', VStr ''exact'')]) \<and>
   handle (new_QueryParameter ''mode'' [VStr ''available'', VStr ''exact''] VNone)
     [(''mode'', VStr ''exact'')] \<lparr>url = ''https://example.org/sdmx'', source_id = None\<rparr>
   = (Inr [(''mode'', VStr ''exact'')], [])"
  by (simp add: handle_def QueryParameter_handle_def new_QueryParameter_def keys_def py_in_def
        camel_mode)

subsection \<open>Positive-integer parameters\<close>

lemma PositiveIntParam_handle_value:
  assumes "map_of ps n = Some v" and "camel n \<notin> set (keys ps) \<or> camel n = n"
  shows "PositiveIntParam_handle (new_PositiveIntParam n [] d) ps =
     (case py_le_zero v of
        Inl e \<Rightarrow> (Inl e, AList.delete n ps)
      | Inr True \<Rightarrow> (Inl (NotPositiveInt (camel n) v), AList.delete n ps)
      | Inr False \<Rightarrow> (Inr [(camel n, VStr (camel n))], AList.delete n ps))"
proof -
  let ?p = "new_PositiveIntParam n [] d"
  have cn: "camelName ?p = Some (camel n)" and nm: "p_name ?p = n" and vl: "p_values ?p = []"
    by (simp_all add: new_PositiveIntParam_def)
  from assms(1) have "n \<in> set (keys ps)"
    by (auto simp: keys_def dest: map_of_SomeD intro: rev_image_eqI)
  with assms have "QueryParameter_handle ?p ps = (Inr [(camel n, v)], AList.delete n ps)"
    by (auto simp: QueryParameter_handle_cases [OF cn] nm vl)
  then show ?thesis
    by (simp add: PositiveIntParam_handle_def split: sum.splits bool.splits)
qed

lemma PositiveIntParam_handle_absent:
  assumes "n \<notin> set (keys ps)" and "camel n \<notin> set (keys ps)"
  shows "PositiveIntParam_handle (new_PositiveIntParam n vs d) ps = (Inr [], ps)"
proof -
  let ?p = "new_PositiveIntParam n vs d"
  have cn: "camelName ?p = Some (camel n)" and nm: "p_name ?p = n"
    by (simp_all add: new_PositiveIntParam_def)
  from assms have "QueryParameter_handle ?p ps = (Inr [], ps)"
    by (simp add: QueryParameter_handle_cases [OF cn] nm)
  then show ?thesis by (simp add: PositiveIntParam_handle_def)
qed

text \<open>
  C4, as amended. For the registered parameter \<open>first_n_observations\<close>, given under
  its name only: a positive integer makes \<open>handle\<close> return a fragment that is not
  empty; an integer that is zero or negative makes it raise the positive-integer
  validation error; a string makes it fail too, with the \<open>TypeError\<close> of the comparison
  \<open>value <= 0\<close> and not with the validation error; and when neither the name nor the
  alias is given it returns the empty fragment and leaves the dictionary as it was.
\<close>

theorem PositiveIntParam_handle_first_n:
  "(map_of ps ''first_n_observations'' = Some (VInt i) \<and> 0 < i \<and>
      ''firstNObservations'' \<notin> set (keys ps) \<longrightarrow>
      (\<exists>frag. fst (handle (new_PositiveIntParam ''first_n_observations'' [] VNone) ps src)
                 = Inr frag \<and> frag \<noteq> [])) \<and>
   (map_of ps ''first_n_observations'' = Some (VInt i) \<and> i \<le> 0 \<and>
      ''firstNObservations'' \<notin> set (keys ps) \<longrightarrow>
      fst (handle (new_PositiveIntParam ''first_n_observations'' [] VNone) ps src)
        = Inl (NotPositiveInt ''firstNObservations'' (VInt i))) \<and>
   (map_of ps ''first_n_observations'' = Some (VStr s) \<and>
      ''firstNObservations'' \<notin> set (keys ps) \<longrightarrow>
      fst (handle (new_PositiveIntParam ''first_n_observations'' [] VNone) ps src)
        = Inl TypeError) \<and>
   (''first_n_observations'' \<notin> set (keys ps) \<and> ''firstNObservations'' \<notin> set (keys ps) \<longrightarrow>
      handle (new_PositiveIntParam ''first_n_observations'' [] VNone) ps src = (Inr [], ps))"
  using PositiveIntParam_handle_value [of ps "''first_n_observations''" "VInt i" VNone]
    PositiveIntParam_handle_value [of ps "''first_n_observations''" "VStr s" VNone]
    PositiveIntParam_handle_absent [of "''first_n_observations''" ps "[]" VNone]
  by (auto simp: handle_new_PositiveIntParam camel_first_n_observations)

theorem PositiveIntParam_handle_first_n_witness:
  "(\<exists>frag. fst (handle (new_PositiveIntParam ''first_n_observations'' [] VNone)
                  [(''first_n_observations'', VInt 5)]
                  \<lparr>url = ''https://example.org/sdmx'', source_id = None\<rparr>) = Inr frag \<and>
           frag \<noteq> []) \<and>
   fst (handle (new_PositiveIntParam ''first_n_observations'' [] VNone)
          [(''first_n_observations'', VInt 0)]
          \<lparr>url = ''https://example.org/sdmx'', source_id = None\<rparr>)
     = Inl (NotPositiveInt ''firstNObservations'' (VInt 0)) \<and>
   fst (handle (new_PositiveIntParam ''first_n_observations'' [] VNone)
          [(''first_n_observations'', VInt (- 3))]
          \<lparr>url = ''https://example.org/sdmx'', source_id = None\<rparr>)
     = Inl (NotPositiveInt ''firstNObservations'' (VInt (- 3))) \<and>
   fst (handle (new_PositiveIntParam ''first_n_observations'' [] VNone)
          [(''first_n_observations'', VStr ''abc'')]
          \<lparr>url = ''https://example.org/sdmx'', source_id = None\<rparr>)
     = Inl TypeError \<and>
   handle (new_PositiveIntParam ''first_n_observations'' [] VNone)
     [(''start_period'', VStr ''2000'')]
     \<lparr>url = ''https://example.org/sdmx'', source_id = None\<rparr>
     = (Inr [], [(''start_period'', VStr ''2000'')])"
  using
    PositiveIntParam_handle_first_n [of "[(''first_n_observations'', VInt 5)]" 5
      "\<lparr>url = ''https://example.org/sdmx'', source_id = None\<rparr>"]
    PositiveIntParam_handle_first_n [of "[(''first_n_observations'', VInt 0)]" 0
      "\<lparr>url = ''https://example.org/sdmx'', source_id = None\<rparr>"]
    PositiveIntParam_handle_first_n [of "[(''first_n_observations'', VInt (- 3))]" "- 3"
      "\<lparr>url = ''https://example.org/sdmx'', source_id = None\<rparr>"]
    PositiveIntParam_handle_first_n [of "[(''first_n_observations'', VStr ''abc'')]" _
      "\<lparr>url = ''https://example.org/sdmx'', source_id = None\<rparr>" "''abc''"]
    PositiveIntParam_handle_first_n [of "[(''start_period'', VStr ''2000'')]" _
      "\<lparr>url = ''https://example.org/sdmx'', source_id = None\<rparr>"]
  by (simp add: keys_def)

text \<open>
  The claim as written fails on a value that is not a number: the string \<open>abc\<close> raises
  \<open>TypeError\<close>, which is not the validation error.
\<close>

theorem PositiveIntParam_handle_first_n_counterexample:
  "handle (new_PositiveIntParam ''first_n_observations'' [] VNone)
     [(''first_n_observations'', VStr ''abc'')]
     \<lparr>url = ''https://example.org/sdmx'', source_id = None\<rparr>
   = (Inl TypeError, [])"
  by (simp add: handle_new_PositiveIntParam PositiveIntParam_handle_value
        camel_first_n_observations keys_def)

text \<open>
  C5. On the value 5 the fragment that \<open>PositiveIntParam.handle\<close> returns maps the key
  \<open>firstNObservations\<close> to the string \<open>firstNObservations\<close>, the key itself, where the
  string form of the value is \<open>5\<close>.
\<close>

theorem PositiveIntParam_handle_stores_key:
  "handle (new_PositiveIntParam ''first_n_observations'' [] VNone)
     [(''first_n_observations'', VInt 5)]
     \<lparr>url = ''https://example.org/sdmx'', source_id = None\<rparr>
   = (Inr [(''firstNObservations'', VStr ''firstNObservations'')], []) \<and>
   py_str (VInt 5) = ''5'' \<and>
   VStr ''firstNObservations'' \<noteq> VStr (py_str (VInt 5))"
proof -
  have "py_str (VInt 5) = ''5''" by code_simp
  then show ?thesis
    by (simp add: handle_new_PositiveIntParam PositiveIntParam_handle_value
          camel_first_n_observations keys_def)
qed

subsection \<open>The frame of a \<open>handle\<close> call\<close>

text \<open>
  C9. Whatever the class of the parameter and whether the call returns or raises,
  \<open>handle\<close> leaves a dictionary that is the one it was given or that one without a
  single key, the parameter's name or its \<open>camelName\<close>. So every entry it leaves was
  there before, every entry under another key is still there, and the binding of every
  other key is unchanged.
\<close>

theorem handle_frame:
  "(snd (handle p ps src) = ps \<or>
    (\<exists>k. (k = p_name p \<or> camelName p = Some k) \<and> snd (handle p ps src) = AList.delete k ps)) \<and>
   set (snd (handle p ps src)) \<subseteq> set ps \<and>
   (\<forall>kv \<in> set ps. fst kv \<noteq> p_name p \<and> camelName p \<noteq> Some (fst kv) \<longrightarrow>
        kv \<in> set (snd (handle p ps src))) \<and>
   (\<forall>k. k \<noteq> p_name p \<and> camelName p \<noteq> Some k \<longrightarrow>
        map_of (snd (handle p ps src)) k = map_of ps k)"
proof -
  note s = snd_handle [of p ps src]
  have a: "set (snd (handle p ps src)) \<subseteq> set ps"
    using s by (auto simp: set_delete_eq)
  have b: "\<forall>kv \<in> set ps. fst kv \<noteq> p_name p \<and> camelName p \<noteq> Some (fst kv) \<longrightarrow>
        kv \<in> set (snd (handle p ps src))"
    using s by (auto simp: set_delete_eq)
  have c: "\<forall>k. k \<noteq> p_name p \<and> camelName p \<noteq> Some k \<longrightarrow>
        map_of (snd (handle p ps src)) k = map_of ps k"
    using s by (auto simp: map_of_delete_other)
  from s a b c show ?thesis by blast
qed

theorem handle_frame_witness:
  "map_of (snd (handle (new_AgencyParam ''agency_id'' [] VNone)
                  [(''resource_id'', VStr ''EXR''), (''agency_id'', VStr ''ECB'')]
                  \<lparr>url = ''https://example.org/sdmx'', source_id = None\<rparr>))
          ''resource_id'' = Some (VStr ''EXR'') \<and>
   (''resource_id'', VStr ''EXR'') \<in>
     set (snd (handle (new_QueryParameter ''start_period'' [] VNone)
                 [(''resource_id'', VStr ''EXR''), (''startPeriod'', VStr ''2001'')]
                 \<lparr>url = ''https://example.org/sdmx'', source_id = None\<rparr>))"
  using
    handle_frame [of "new_AgencyParam ''agency_id'' [] VNone"
      "[(''resource_id'', VStr ''EXR''), (''agency_id'', VStr ''ECB'')]"
      "\<lparr>url = ''https://example.org/sdmx'', source_id = None\<rparr>"]
    handle_frame [of "new_QueryParameter ''start_period'' [] VNone"
      "[(''resource_id'', VStr ''EXR''), (''startPeriod'', VStr ''2001'')]"
      "\<lparr>url = ''https://example.org/sdmx'', source_id = None\<rparr>"]
  by (simp add: new_AgencyParam_def new_QueryParameter_def camel_start_period)

subsection \<open>A name that is its own alias\<close>

text \<open>
  C10. When no underscore of the name is followed by a lower-case letter, as in the
  registered name \<open>mode\<close>, the constructor sets \<open>camelName\<close> to the name, the set of
  the two keys has one element, so at most one key is found in any dictionary, and
  \<open>handle\<close> never raises the conflicting-alias error.
\<close>

theorem QueryParameter_no_conflict:
  assumes "list_all (\<lambda>(a, b). \<not> (a = CHR ''_'' \<and> is_lower b)) (zip n (tl n))"
  shows "camelName (new_QueryParameter n vs d) = Some n \<and>
    length (filter (\<lambda>k. k \<in> set (keys ps)) (remdups [n, camel n])) \<le> 1 \<and>
    fst (handle (new_QueryParameter n vs d) ps src) \<noteq> Inl (ConflictingAlias a b)"
proof -
  from assms have c: "camel n = n" by (rule camel_id)
  let ?p = "new_QueryParameter n vs d"
  have cn: "camelName ?p = Some n" and nm: "p_name ?p = n"
    by (simp_all add: new_QueryParameter_def c)
  have "fst (QueryParameter_handle ?p ps) \<noteq> Inl (ConflictingAlias a b)"
    by (simp add: QueryParameter_handle_cases [OF cn] nm split: option.splits)
  with cn c show ?thesis by (simp add: handle_new_QueryParameter)
qed

theorem QueryParameter_no_conflict_witness:
  "camelName (new_QueryParameter ''mode'' [VStr ''available'', VStr ''exact''] VNone) = Some ''mode'' \<and>
   fst (handle (new_QueryParameter ''mode'' [VStr ''available'', VStr ''exact''] VNone)
          [(''mode'', VStr ''exact'')] \<lparr>url = ''https://example.org/sdmx'', source_id = None\<rparr>)
     \<noteq> Inl (ConflictingAlias ''mode'' ''mode'')"
proof -
  have "list_all (\<lambda>(a, b). \<not> (a = CHR ''_'' \<and> is_lower b)) (zip ''mode'' (tl ''mode''))"
    by simp
  from QueryParameter_no_conflict [OF this] show ?thesis by blast
qed

subsection \<open>The data handler and \<open>join\<close>\<close>

lemma identify_query_type_data: "identify_query_type r_data = Inr data"
  by (simp add: identify_query_type_def QueryType_getitem_def QueryType_members_def)

lemma identify_query_type_dataflow: "identify_query_type dataflow = Inr structure"
  by (simp add: identify_query_type_def QueryType_getitem_def QueryType_members_def)

lemma urlsplit3_example:
  "urlsplit3 ''https://example.org/sdmx'' = Inr (''https'', ''example.org'', ''/sdmx'')"
  by code_simp

lemma urlunsplit_example:
  "urlunsplit ''https'' ''example.org'' ''/sdmx/data/EXR'' [] = ''https://example.org/sdmx/data/EXR''"
  by (simp add: urlunsplit_def)

lemma Resource_name_not_path_key:
  "Resource_name r \<noteq> ''flow_ref'' \<and> Resource_name r \<noteq> ''key''"
  by (cases r) simp_all

lemma in_keys_iff: "k \<in> set (keys ps) \<longleftrightarrow> map_of ps k \<noteq> None"
  by (simp add: keys_def map_of_eq_None_iff)

text \<open>
  C2, as amended. With the resource \<open>data\<close>, \<open>resource_id\<close> \<open>EXR\<close> and the base URL
  \<open>https://example.org/sdmx\<close>, the build succeeds for any concrete class, its path is
  the placeholder \<open>data \<mapsto> None\<close> then \<open>flow_ref \<mapsto> EXR\<close>, and \<open>join\<close> returns
  \<open>https://example.org/sdmx/data/EXR\<close>. In general the data and metadata handler, on an
  empty path, writes the placeholder under the name of the resource type with value
  \<open>None\<close>, moves the value of \<open>resource_id\<close> to the path under \<open>flow_ref\<close>, then the value
  of \<open>key\<close> if there is one; without \<open>resource_id\<close> it raises \<open>KeyError\<close>.
\<close>

theorem handle_data_join:
  "(\<exists>u. URL_init c \<lparr>url = ''https://example.org/sdmx'', source_id = sid\<rparr> r_data
           [(''resource_id'', VStr ''EXR'')] None = Inr u \<and>
        path u = [(''data'', VNone), (''flow_ref'', VStr ''EXR'')] \<and>
        query u = [] \<and>
        join u = Inr ''https://example.org/sdmx/data/EXR'') \<and>
   (path v = [] \<and> map_of (params v) ''resource_id'' = Some rid \<longrightarrow>
      (\<exists>u. handle_data v = Inr u \<and>
           path u = (Resource_name (resource_type v), VNone) # (''flow_ref'', rid) #
                    (case map_of (params v) ''key'' of None \<Rightarrow> [] | Some k \<Rightarrow> [(''key'', k)]) \<and>
           params u = AList.delete ''key'' (AList.delete ''resource_id'' (params v)))) \<and>
   (map_of (params v) ''resource_id'' = None \<longrightarrow> handle_data v = Inl (KeyError ''resource_id''))"
proof -
  have e2e: "\<exists>u. URL_init c \<lparr>url = ''https://example.org/sdmx'', source_id = sid\<rparr> r_data
           [(''resource_id'', VStr ''EXR'')] None = Inr u \<and>
        path u = [(''data'', VNone), (''flow_ref'', VStr ''EXR'')] \<and>
        query u = [] \<and>
        join u = Inr ''https://example.org/sdmx/data/EXR''"
    by (simp add: URL_init_def init_params_def identify_query_type_data dispatch_def handle_data_def
          dict_update_def keys_def join_def urlsplit3_example path_segment_def
          urlunsplit_example)
  have seed: "\<exists>u. handle_data v = Inr u \<and>
           path u = (Resource_name (resource_type v), VNone) # (''flow_ref'', rid) #
                    (case map_of (params v) ''key'' of None \<Rightarrow> [] | Some k \<Rightarrow> [(''key'', k)]) \<and>
           params u = AList.delete ''key'' (AList.delete ''resource_id'' (params v))"
    if "path v = []" "map_of (params v) ''resource_id'' = Some rid"
  proof -
    have k: "map_of (AList.delete ''resource_id'' (params v)) ''key'' = map_of (params v) ''key''"
      by (simp add: map_of_delete_other)
    have d: "AList.delete ''key'' (AList.delete ''resource_id'' (params v))
          = AList.delete ''resource_id'' (params v)"
      if "map_of (params v) ''key'' = None"
    proof -
      from that have "''key'' \<notin> fst ` set (params v)"
        by (simp add: map_of_eq_None_iff)
      with dom_delete_subset [of "''resource_id''" "params v"]
      have "''key'' \<notin> fst ` set (AList.delete ''resource_id'' (params v))"
        by blast
      then show ?thesis by (rule delete_id)
    qed
    from that k d Resource_name_not_path_key [of "resource_type v"] show ?thesis
      by (auto simp: handle_data_def dict_update_def Let_def split: option.splits)
  qed
  have req: "map_of (params v) ''resource_id'' = None \<longrightarrow>
      handle_data v = Inl (KeyError ''resource_id'')"
    by (simp add: handle_data_def)
  from e2e seed req show ?thesis by blast
qed

theorem handle_data_join_witness:
  "\<exists>u. handle_data
          \<lparr>source = \<lparr>url = ''https://example.org/sdmx'', source_id = None\<rparr>,
           resource_type = r_metadata, query_type = metadata, path = [], query = [],
           params = [(''key'', VStr ''A.B''), (''resource_id'', VStr ''EXR'')]\<rparr> = Inr u \<and>
        path u = [(''metadata'', VNone), (''flow_ref'', VStr ''EXR''), (''key'', VStr ''A.B'')] \<and>
        params u = []"
  using handle_data_join [of _ _
      "\<lparr>source = \<lparr>url = ''https://example.org/sdmx'', source_id = None\<rparr>,
        resource_type = r_metadata, query_type = metadata, path = [], query = [],
        params = [(''key'', VStr ''A.B''), (''resource_id'', VStr ''EXR'')]\<rparr>"
      "VStr ''EXR''"]
  by simp

text \<open>
  The claim as written fails for the resource \<open>dataflow\<close>: its query type is
  \<open>structure\<close>, so the data handler does not run. With the body that the abstract class
  gives \<open>handle_structure\<close>, \<open>resource_id\<close> is left over and the build raises.
\<close>

theorem handle_data_join_counterexample:
  "identify_query_type dataflow = Inr structure \<and>
   URL_init URL_base \<lparr>url = ''https://example.org/sdmx'', source_id = None\<rparr> dataflow
     [(''resource_id'', VStr ''EXR'')] None
   = Inl (UnexpectedParameters [(''resource_id'', VStr ''EXR'')])"
  by (simp add: URL_init_def init_params_def identify_query_type_dataflow dispatch_def URL_base_def
        URL_handle_structure_def dict_update_def keys_def)

subsection \<open>Keywords that no handler consumes\<close>

text \<open>A key that none of the parameters handled owns is still there after the loop.\<close>

lemma handle_keeps_key:
  assumes "k \<in> set (keys ps)" and "k \<noteq> p_name p" and "camelName p \<noteq> Some k"
  shows "k \<in> set (keys (snd (handle p ps src)))"
proof -
  from assms(1) obtain v where "(k, v) \<in> set ps" by (auto simp: keys_def)
  with assms(2,3) snd_handle [of p ps src] have "(k, v) \<in> set (snd (handle p ps src))"
    by (auto simp: set_delete_eq)
  then show ?thesis by (auto simp: keys_def intro: rev_image_eqI)
qed

lemma handle_path_names_keeps_key:
  assumes "handle_path_names reg ns u = Inr u'"
    and "k \<in> set (keys (params u))"
    and "\<forall>n \<in> set ns. \<forall>p. map_of reg (Name n) = Some p \<longrightarrow> k \<noteq> p_name p \<and> camelName p \<noteq> Some k"
  shows "k \<in> set (keys (params u'))"
  using assms
proof (induction ns arbitrary: u)
  case Nil
  then show ?case by simp
next
  case (Cons n ns)
  from Cons.prems(1) obtain p where p: "map_of reg (Name n) = Some p"
    by (auto split: option.splits)
  obtain res ps' where h: "handle p (params u) (source u) = (res, ps')"
    by (cases "handle p (params u) (source u)")
  from Cons.prems(1) p h obtain frag where frag: "res = Inr frag"
    by (cases res) auto
  from Cons.prems(3) p have own: "k \<noteq> p_name p" "camelName p \<noteq> Some k" by auto
  from handle_keeps_key [OF Cons.prems(2) own, of "source u"] h
  have k': "k \<in> set (keys ps')" by simp
  let ?u1 = "u\<lparr>params := ps', path := dict_update (path u) frag\<rparr>"
  from Cons.prems(1) p h frag have "handle_path_names reg ns ?u1 = Inr u'" by simp
  moreover from k' have "k \<in> set (keys (params ?u1))" by simp
  moreover from Cons.prems(3) have
    "\<forall>n \<in> set ns. \<forall>p. map_of reg (Name n) = Some p \<longrightarrow> k \<noteq> p_name p \<and> camelName p \<noteq> Some k"
    by simp
  ultimately show ?case by (rule Cons.IH)
qed

lemma split_schema_expr:
  "split_sep CHR ''/'' ''context/agency_id/resource_id/version''
     = [''context'', ''agency_id'', ''resource_id'', ''version'']"
  by code_simp

lemma handle_data_keeps_key:
  assumes "handle_data u = Inr u'" and "k \<in> set (keys (params u))"
    and "k \<noteq> ''resource_id''" and "k \<noteq> ''key''"
  shows "k \<in> set (keys (params u'))"
proof -
  from assms(2-4) have "map_of (AList.delete ''key'' (AList.delete ''resource_id'' (params u))) k \<noteq> None"
    and "map_of (AList.delete ''resource_id'' (params u)) k \<noteq> None"
    by (simp_all add: map_of_delete_other in_keys_iff)
  with assms(1) show ?thesis
    by (auto simp: handle_data_def Let_def in_keys_iff split: option.splits)
qed

lemma URL_init_outcome:
  assumes "init_params kwargs pk = Inr ps" and "identify_query_type rt = Inr qt"
  shows "URL_init c src rt kwargs pk =
     (case dispatch c \<lparr>source = src, resource_type = rt, query_type = qt, path = [],
                        query = [], params = ps\<rparr> of
        Inl e \<Rightarrow> Inl e
      | Inr u \<Rightarrow> if params u \<noteq> [] then Inl (UnexpectedParameters (params u)) else Inr u)"
  using assms by (simp add: URL_init_def split: sum.splits)

lemma URL_init_Inr_params: "URL_init c src rt kwargs pk = Inr u \<Longrightarrow> params u = []"
  by (auto simp: URL_init_def Let_def split: if_splits sum.splits)

lemma dispatch_data: "query_type u = data \<or> query_type u = metadata \<Longrightarrow> dispatch c u = handle_data u"
  by (auto simp: dispatch_def)

lemma dispatch_schema:
  "query_type u = schema \<Longrightarrow>
   dispatch c u =
     handle_path_names (all_parameters c) [''context'', ''agency_id'', ''resource_id'', ''version'']
       (u\<lparr>path := dict_update (path u) [(Resource_name (resource_type u), VNone)]\<rparr>)"
  by (simp add: dispatch_def handle_schema_def handle_path_params_def split_schema_expr)

lemma identify_query_type_cases:
  "identify_query_type r_data = Inr data" "identify_query_type r_metadata = Inr metadata"
  "identify_query_type r_schema = Inr schema"
  by (simp_all add: identify_query_type_def QueryType_getitem_def QueryType_members_def)

text \<open>
  C6, as amended. A build returns an object only with an empty remaining-parameters
  dictionary. When the keywords merge without a duplicate and the handler of the query
  type returns with a key still in the dictionary, the build raises the
  unexpected-parameters error; when the handler raises, the build raises the handler's
  error; a duplicate raises first. So a keyword that the handler does not consume always
  makes the build fail: for the data and metadata handler any key other than
  \<open>resource_id\<close> and \<open>key\<close>, for the schema handler any key that is neither the name nor
  the \<open>camelName\<close> of the parameters registered for \<open>context\<close>, \<open>agency_id\<close>,
  \<open>resource_id\<close> and \<open>version\<close>.
\<close>

theorem URL_init_unconsumed:
  "(URL_init c src rt kwargs pk = Inr u \<longrightarrow> params u = []) \<and>
   (init_params kwargs pk = Inl e \<longrightarrow> URL_init c src rt kwargs pk = Inl e) \<and>
   (init_params kwargs pk = Inr ps \<and> identify_query_type rt = Inr qt \<longrightarrow>
      (case dispatch c \<lparr>source = src, resource_type = rt, query_type = qt, path = [],
                         query = [], params = ps\<rparr> of
         Inl e' \<Rightarrow> URL_init c src rt kwargs pk = Inl e'
       | Inr u' \<Rightarrow>
           (k \<in> set (keys (params u')) \<longrightarrow>
              URL_init c src rt kwargs pk = Inl (UnexpectedParameters (params u'))))) \<and>
   (init_params kwargs pk = Inr ps \<and> k \<in> set (keys ps) \<and>
    ((rt = r_data \<or> rt = r_metadata) \<and> k \<noteq> ''resource_id'' \<and> k \<noteq> ''key'' \<or>
     rt = r_schema \<and>
       (\<forall>n \<in> set [''context'', ''agency_id'', ''resource_id'', ''version''].
          \<forall>p. map_of (all_parameters c) (Name n) = Some p \<longrightarrow>
                k \<noteq> p_name p \<and> camelName p \<noteq> Some k)) \<longrightarrow>
      (\<exists>qt. identify_query_type rt = Inr qt \<and>
        (case dispatch c \<lparr>source = src, resource_type = rt, query_type = qt, path = [],
                           query = [], params = ps\<rparr> of
           Inl e' \<Rightarrow> URL_init c src rt kwargs pk = Inl e'
         | Inr u' \<Rightarrow>
             k \<in> set (keys (params u')) \<and>
             URL_init c src rt kwargs pk = Inl (UnexpectedParameters (params u')))))"
proof -
  let ?u0 = "\<lambda>qt ps. \<lparr>source = src, resource_type = rt, query_type = qt, path = [],
                       query = [], params = ps\<rparr>"
  have a: "URL_init c src rt kwargs pk = Inr u \<longrightarrow> params u = []"
    by (auto dest: URL_init_Inr_params)
  have b: "init_params kwargs pk = Inl e \<longrightarrow> URL_init c src rt kwargs pk = Inl e"
    by (simp add: URL_init_def)
  have g: "case dispatch c (?u0 qt ps) of
         Inl e' \<Rightarrow> URL_init c src rt kwargs pk = Inl e'
       | Inr u' \<Rightarrow>
           (k \<in> set (keys (params u')) \<longrightarrow>
              URL_init c src rt kwargs pk = Inl (UnexpectedParameters (params u')))"
    if "init_params kwargs pk = Inr ps" "identify_query_type rt = Inr qt" for qt
    using that by (auto simp: URL_init_outcome keys_def split: sum.splits)
  have stays: "k \<in> set (keys (params u'))"
    if "k \<in> set (keys ps)" "identify_query_type rt = Inr qt" "dispatch c (?u0 qt ps) = Inr u'"
      and cond: "(rt = r_data \<or> rt = r_metadata) \<and> k \<noteq> ''resource_id'' \<and> k \<noteq> ''key'' \<or>
        rt = r_schema \<and>
        (\<forall>n \<in> set [''context'', ''agency_id'', ''resource_id'', ''version''].
          \<forall>p. map_of (all_parameters c) (Name n) = Some p \<longrightarrow>
                k \<noteq> p_name p \<and> camelName p \<noteq> Some k)"
    for qt u'
  proof (cases "rt = r_schema")
    case True
    with that(2) have qt: "qt = schema" by (simp add: identify_query_type_cases)
    from True cond have own: "\<forall>n \<in> set [''context'', ''agency_id'', ''resource_id'', ''version''].
          \<forall>p. map_of (all_parameters c) (Name n) = Some p \<longrightarrow>
                k \<noteq> p_name p \<and> camelName p \<noteq> Some k"
      by auto
    from that(3) qt have
      "handle_path_names (all_parameters c)
         [''context'', ''agency_id'', ''resource_id'', ''version'']
         ((?u0 schema ps)\<lparr>path := dict_update [] [(Resource_name rt, VNone)]\<rparr>) = Inr u'"
      by (simp add: dispatch_schema)
    from handle_path_names_keeps_key [OF this _ own] that(1) show ?thesis by simp
  next
    case False
    with cond have rt: "rt = r_data \<or> rt = r_metadata" and k: "k \<noteq> ''resource_id''" "k \<noteq> ''key''"
      by auto
    from rt that(2) have "qt = data \<or> qt = metadata"
      by (auto simp: identify_query_type_cases)
    with that(3) have "handle_data (?u0 qt ps) = Inr u'"
      by (simp add: dispatch_data)
    from handle_data_keeps_key [OF this _ k] that(1) show ?thesis by simp
  qed
  have d: "\<exists>qt. identify_query_type rt = Inr qt \<and>
        (case dispatch c (?u0 qt ps) of
           Inl e' \<Rightarrow> URL_init c src rt kwargs pk = Inl e'
         | Inr u' \<Rightarrow>
             k \<in> set (keys (params u')) \<and>
             URL_init c src rt kwargs pk = Inl (UnexpectedParameters (params u')))"
    if ip: "init_params kwargs pk = Inr ps" and kin: "k \<in> set (keys ps)"
      and cond: "(rt = r_data \<or> rt = r_metadata) \<and> k \<noteq> ''resource_id'' \<and> k \<noteq> ''key'' \<or>
        rt = r_schema \<and>
        (\<forall>n \<in> set [''context'', ''agency_id'', ''resource_id'', ''version''].
          \<forall>p. map_of (all_parameters c) (Name n) = Some p \<longrightarrow>
                k \<noteq> p_name p \<and> camelName p \<noteq> Some k)"
  proof -
    from cond obtain qt where qt: "identify_query_type rt = Inr qt"
      by (auto simp: identify_query_type_cases)
    show ?thesis
    proof (cases "dispatch c (?u0 qt ps)")
      case (Inl e')
      with g [OF ip qt] qt show ?thesis by auto
    next
      case (Inr u')
      from stays [OF kin qt Inr cond] have "k \<in> set (keys (params u'))" .
      with g [OF ip qt] Inr qt show ?thesis by auto
    qed
  qed
  from a b g d show ?thesis by blast
qed

theorem URL_init_unconsumed_witness:
  "URL_init URL_base \<lparr>url = ''https://example.org/sdmx'', source_id = None\<rparr> r_data
     [(''resource_id'', VStr ''EXR''), (''bogus_param'', VStr ''x'')] None
   = Inl (UnexpectedParameters [(''bogus_param'', VStr ''x'')]) \<and>
   URL_init URL_base \<lparr>url = ''https://example.org/sdmx'', source_id = None\<rparr> r_schema
     [(''bogus_param'', VStr ''x'')] None
   = Inl (KeyError ''context'')"
proof -
  let ?src = "\<lparr>url = ''https://example.org/sdmx'', source_id = None\<rparr>"
  let ?kw = "[(''resource_id'', VStr ''EXR''), (''bogus_param'', VStr ''x'')]"
  have ip: "init_params ?kw None = Inr ?kw"
    by (simp add: init_params_def dict_update_def keys_def)
  have k: "''bogus_param'' \<in> set (keys ?kw)"
    by (simp add: keys_def)
  have hd: "dispatch URL_base
      \<lparr>source = ?src, resource_type = r_data, query_type = data, path = [], query = [],
       params = ?kw\<rparr>
     = Inr \<lparr>source = ?src, resource_type = r_data, query_type = data,
            path = [(''data'', VNone), (''flow_ref'', VStr ''EXR'')], query = [],
            params = [(''bogus_param'', VStr ''x'')]\<rparr>"
    by (simp add: dispatch_def handle_data_def dict_update_def)
  from URL_init_unconsumed [of URL_base ?src r_data ?kw None _ _ ?kw data "''bogus_param''"]
    ip k hd identify_query_type_cases(1)
  have one: "URL_init URL_base ?src r_data ?kw None
      = Inl (UnexpectedParameters [(''bogus_param'', VStr ''x'')])"
    by simp
  let ?kw2 = "[(''bogus_param'', VStr ''x'')]"
  have ip2: "init_params ?kw2 None = Inr ?kw2"
    by (simp add: init_params_def dict_update_def keys_def)
  have k2: "''bogus_param'' \<in> set (keys ?kw2)"
    by (simp add: keys_def)
  have own: "\<forall>n \<in> set [''context'', ''agency_id'', ''resource_id'', ''version''].
      \<forall>p. map_of (all_parameters URL_base) (Name n) = Some p \<longrightarrow>
           ''bogus_param'' \<noteq> p_name p \<and> camelName p \<noteq> Some ''bogus_param''"
    by (simp add: URL_base_def PARAM_def new_AgencyParam_def new_PathParameter_def)
  have hs: "dispatch URL_base
      \<lparr>source = ?src, resource_type = r_schema, query_type = schema, path = [], query = [],
       params = ?kw2\<rparr> = Inl (KeyError ''context'')"
    by (simp add: dispatch_schema URL_base_def PARAM_def)
  from URL_init_unconsumed [of URL_base ?src r_schema ?kw2 None _ _ ?kw2 _ "''bogus_param''"]
    ip2 k2 own hs identify_query_type_cases(3)
  have two: "URL_init URL_base ?src r_schema ?kw2 None = Inl (KeyError ''context'')"
    by simp
  from one two show ?thesis by simp
qed

text \<open>
  The claim as written fails where the handler raises before the check: with the
  resource \<open>data\<close> and the one keyword \<open>bogus_param\<close>, the data handler raises
  \<open>KeyError\<close> for the missing \<open>resource_id\<close>, which is not the unexpected-parameters
  error.
\<close>

theorem URL_init_unconsumed_counterexample:
  "URL_init URL_base \<lparr>url = ''https://example.org/sdmx'', source_id = None\<rparr> r_data
     [(''bogus_param'', VStr ''x'')] None
   = Inl (KeyError ''resource_id'')"
  by (simp add: URL_init_def init_params_def identify_query_type_cases dispatch_def
        handle_data_def dict_update_def keys_def)

end
